theory Spec2Isabelle
  imports Complex_Main "HOL-Library.Word"
begin

section \<open>Errors raised by the SDK (errors.ts)\<close>

datatype PipeErrorCode =
    INVALID_CREDENTIALS | UNAUTHORIZED | SESSION_EXPIRED
  | USERNAME_EXISTS | ACCOUNT_NOT_FOUND
  | FILE_NOT_FOUND | UPLOAD_FAILED | DOWNLOAD_FAILED | DELETE_FAILED
  | INSUFFICIENT_BALANCE | INSUFFICIENT_SOL
  | INVALID_USERNAME | INVALID_PASSWORD | INVALID_AMOUNT
  | NETWORK_ERROR | TIMEOUT
  | UNKNOWN

text \<open>
  Everything a function of the SDK can throw. The first four are the classes of errors.ts
  (message, then for \<open>PipeApiError\<close> the optional status and the code). The others are
  raised by the platform: \<open>DOMException\<close> by \<open>Storage.setItem\<close>, \<open>SyntaxError\<close> by
  \<open>JSON.parse\<close>, \<open>TypeError\<close> by a property read on a value without that property,
  and \<open>ModuleError\<close> by a dynamic \<open>import()\<close> that cannot be resolved or by the imported
  function.
\<close>

datatype thrown =
    PipeApiError string "nat option" PipeErrorCode
  | PipeValidationError string
  | PipeSessionError string
  | PipeStorageError string
  | DOMException string
  | SyntaxError
  | TypeError
  | ModuleError string

text \<open>The constructor of \<open>PipeApiError\<close>: \<open>this.code = code || PipeErrorCode.UNKNOWN\<close>.\<close>

definition new_PipeApiError :: "string \<Rightarrow> nat option \<Rightarrow> PipeErrorCode option \<Rightarrow> thrown" where
  "new_PipeApiError message status code =
     PipeApiError message status (case code of None \<Rightarrow> UNKNOWN | Some c \<Rightarrow> c)"

section \<open>Content addressing (client.ts, calculateBlake3Hash)\<close>

type_synonym byte = "8 word"

text \<open>
  The two hash functions come from the package @noble/hashes and are loaded with a dynamic
  \<open>import()\<close> at every call: they are parameters of the model. \<open>Inl\<close> is an import (or a
  call) that throws, \<open>Inr\<close> the digest.
\<close>

record hash_modules =
  blake3 :: "byte list \<Rightarrow> thrown + byte list"
  sha256 :: "byte list \<Rightarrow> thrown + byte list"

definition hex_digit :: "nat \<Rightarrow> char" where
  "hex_digit d = ''0123456789abcdef'' ! d"

text \<open>\<open>Number.prototype.toString(16)\<close> on a non-negative integer.\<close>

function toString16 :: "nat \<Rightarrow> string" where
  "toString16 n = (if n < 16 then [hex_digit n] else toString16 (n div 16) @ [hex_digit (n mod 16)])"
  by pat_completeness auto
termination
  by (relation "measure (\<lambda>n. n)") auto

declare toString16.simps [simp del]

text \<open>\<open>String.prototype.padStart(targetLength, padString)\<close> for a one-character pad.\<close>

definition padStart :: "nat \<Rightarrow> char \<Rightarrow> string \<Rightarrow> string" where
  "padStart targetLength c s = replicate (targetLength - length s) c @ s"

text \<open>\<open>Array.from(hashBytes, (byte) => byte.toString(16).padStart(2, '0')).join('')\<close>\<close>

definition to_hex :: "byte list \<Rightarrow> string" where
  "to_hex hashBytes = concat (map (\<lambda>byte. padStart 2 (CHR ''0'') (toString16 (unat byte))) hashBytes)"

text \<open>
  The \<open>try\<close> block hashes with blake3; whatever it throws is caught, and the \<open>catch\<close>
  block hashes with SHA-256 outside any handler, so an error there reaches the caller.
\<close>

definition calculateBlake3Hash :: "hash_modules \<Rightarrow> byte list \<Rightarrow> thrown + string" where
  "calculateBlake3Hash env data =
     (case blake3 env data of
        Inr hashBytes \<Rightarrow> Inr (to_hex hashBytes)
      | Inl _ \<Rightarrow>
          (case sha256 env data of
             Inr hashBytes \<Rightarrow> Inr (to_hex hashBytes)
           | Inl e \<Rightarrow> Inl e))"

definition is_lower_hex :: "char \<Rightarrow> bool" where
  "is_lower_hex c = (c \<in> set ''0123456789abcdef'')"


section \<open>JavaScript values\<close>

text \<open>
  A JavaScript number: the finite doubles are rationals, and the three special values are
  kept apart. Comparison follows IEEE 754 (every comparison with \<open>NaN\<close> is false; the two
  zeros are equal and both are \<open>Finite 0\<close>). Addition and multiplication are exact on the
  finite values: rounding and overflow of doubles are not modelled.
\<close>

datatype jsnum = NaN | NegInfinity | Finite rat | PosInfinity

fun js_lt :: "jsnum \<Rightarrow> jsnum \<Rightarrow> bool" where
  "js_lt NaN _ = False"
| "js_lt _ NaN = False"
| "js_lt PosInfinity _ = False"
| "js_lt _ NegInfinity = False"
| "js_lt NegInfinity _ = True"
| "js_lt _ PosInfinity = True"
| "js_lt (Finite x) (Finite y) = (x < y)"

fun js_le :: "jsnum \<Rightarrow> jsnum \<Rightarrow> bool" where
  "js_le NaN _ = False"
| "js_le _ NaN = False"
| "js_le NegInfinity _ = True"
| "js_le _ PosInfinity = True"
| "js_le PosInfinity _ = False"
| "js_le _ NegInfinity = False"
| "js_le (Finite x) (Finite y) = (x \<le> y)"

fun js_add :: "jsnum \<Rightarrow> jsnum \<Rightarrow> jsnum" where
  "js_add NaN _ = NaN"
| "js_add _ NaN = NaN"
| "js_add PosInfinity NegInfinity = NaN"
| "js_add NegInfinity PosInfinity = NaN"
| "js_add PosInfinity _ = PosInfinity"
| "js_add _ PosInfinity = PosInfinity"
| "js_add NegInfinity _ = NegInfinity"
| "js_add _ NegInfinity = NegInfinity"
| "js_add (Finite x) (Finite y) = Finite (x + y)"

definition js_scale_inf :: "bool \<Rightarrow> rat \<Rightarrow> jsnum" where
  "js_scale_inf positive x =
     (if x = 0 then NaN
      else if (0 < x) = positive then PosInfinity else NegInfinity)"

fun js_mul :: "jsnum \<Rightarrow> jsnum \<Rightarrow> jsnum" where
  "js_mul NaN _ = NaN"
| "js_mul _ NaN = NaN"
| "js_mul (Finite x) (Finite y) = Finite (x * y)"
| "js_mul (Finite x) PosInfinity = js_scale_inf True x"
| "js_mul (Finite x) NegInfinity = js_scale_inf False x"
| "js_mul PosInfinity (Finite y) = js_scale_inf True y"
| "js_mul NegInfinity (Finite y) = js_scale_inf False y"
| "js_mul PosInfinity PosInfinity = PosInfinity"
| "js_mul NegInfinity NegInfinity = PosInfinity"
| "js_mul PosInfinity NegInfinity = NegInfinity"
| "js_mul NegInfinity PosInfinity = NegInfinity"

text \<open>
  An optional property is an \<open>option\<close>: \<open>None\<close> is a property that is missing (or
  \<open>undefined\<close> or \<open>null\<close>). Truthiness, as \<open>if (x)\<close>, \<open>!x\<close>, \<open>x && y\<close> and \<open>x || y\<close> test it:
  a string is truthy unless it is empty, a number unless it is zero or \<open>NaN\<close>.
\<close>

definition truthy :: "string option \<Rightarrow> bool" where
  "truthy v = (case v of None \<Rightarrow> False | Some s \<Rightarrow> s \<noteq> [])"

definition truthy_num :: "jsnum option \<Rightarrow> bool" where
  "truthy_num v = (case v of None \<Rightarrow> False | Some n \<Rightarrow> n \<noteq> NaN \<and> n \<noteq> Finite 0)"

text \<open>A value inside a template literal: \<open>`${x}`\<close>.\<close>

definition template :: "string option \<Rightarrow> string" where
  "template v = (case v of None \<Rightarrow> ''undefined'' | Some s \<Rightarrow> s)"

text \<open>A number used as an operand: \<open>undefined\<close> converts to \<open>NaN\<close>.\<close>

definition to_number :: "jsnum option \<Rightarrow> jsnum" where
  "to_number v = (case v of None \<Rightarrow> NaN | Some n \<Rightarrow> n)"

section \<open>Validation (validation.ts)\<close>

record ValidationResult =
  valid :: bool
  error :: "string option"

text \<open>
  \<open>validateAmount\<close>: the parameter is a \<open>number\<close>, so the test
  \<open>typeof amount !== 'number'\<close> is false and \<open>isNaN(amount)\<close> decides the first branch.
\<close>

definition validateAmount :: "jsnum \<Rightarrow> ValidationResult" where
  "validateAmount amount =
     (if amount = NaN then \<lparr>valid = False, error = Some ''Amount must be a valid number''\<rparr>
      else if js_le amount (Finite 0) then
        \<lparr>valid = False, error = Some ''Amount must be greater than 0''\<rparr>
      else \<lparr>valid = True, error = None\<rparr>)"

definition assertValidAmount :: "jsnum \<Rightarrow> thrown + unit" where
  "assertValidAmount amount =
     (let result = validateAmount amount
      in if \<not> valid result then Inl (PipeValidationError (case error result of None \<Rightarrow> [] | Some m \<Rightarrow> m))
         else Inr ())"

section \<open>Accounts and the network (types.ts, client.ts)\<close>

text \<open>
  \<open>PipeAccount\<close>. The four credentials are declared as strings, but an account read back
  from storage may lack any of them, and the code tests them for truthiness: they are
  optional here as well.
\<close>

record PipeAccount =
  username :: "string option"
  password :: "string option"
  userId :: "string option"
  userAppKey :: "string option"
  accessToken :: "string option"
  refreshToken :: "string option"
  tokenExpiry :: "jsnum option"

type_synonym headers = "(string \<times> string option) list"

text \<open>
  The JSON object of a response body, with the properties the client reads: the tokens of
  /auth/refresh and /auth/login, and the amounts of /exchangeSolForTokens.
\<close>

record response_data =
  access_token :: "string option"
  refresh_token :: "string option"
  expires_in :: "jsnum option"
  tokens_minted :: "jsnum option"
  pipe_tokens :: "jsnum option"
  amount :: "jsnum option"

text \<open>The three requests issued by the functions modelled here, with their bodies.\<close>

datatype request =
    PostAuthRefresh string
  | PostAuthLogin string string
  | PostExchangeSolForTokens jsnum headers

text \<open>
  What \<open>await this.api.post(...)\<close> does: the promise is rejected (a network failure, a
  timeout, or a status that axios refuses; the error carries a message and the status of
  \<open>error.response\<close> when there is a response), or it resolves with a status and a body.
  The body of a resolved response is taken to be a JSON object, any property of which may
  be missing.
\<close>

datatype http_outcome =
    Rejected string "nat option"
  | Resolved nat response_data

text \<open>
  The world outside the client: the clock read by \<open>Date.now()\<close> (milliseconds since the
  epoch), the remote service (any function from requests to outcomes), the time each
  request takes, and the requests issued so far. \<open>post\<close> is the only operation that
  reaches the network; it records the request and lets the time pass.
\<close>

record world =
  clock :: nat
  respond :: "request \<Rightarrow> http_outcome"
  elapsed :: "request \<Rightarrow> nat"
  requests :: "request list"

definition Date_now :: "world \<Rightarrow> jsnum" where
  "Date_now w = Finite (of_nat (clock w))"

definition post :: "request \<Rightarrow> world \<Rightarrow> http_outcome \<times> world" where
  "post req w =
     (respond w req, w\<lparr>clock := clock w + elapsed w req, requests := requests w @ [req]\<rparr>)"

definition bearer :: "string option \<Rightarrow> headers" where
  "bearer token = [(''Authorization'', Some (''Bearer '' @ template token))]"

text \<open>\<open>Date.now() + tokens.expires_in * 1000\<close>\<close>

definition expiry_after :: "world \<Rightarrow> response_data \<Rightarrow> jsnum" where
  "expiry_after w tokens = js_add (Date_now w) (js_mul (to_number (expires_in tokens)) (Finite 1000))"

text \<open>The first test of \<open>getAuthHeaders\<close>: is the cached token still valid?\<close>

definition token_valid :: "PipeAccount \<Rightarrow> world \<Rightarrow> bool" where
  "token_valid account w =
     (truthy (accessToken account) \<and> truthy_num (tokenExpiry account)
      \<and> js_lt (Date_now w) (to_number (tokenExpiry account)))"

text \<open>
  The block \<open>if (account.refreshToken) { try { ... } catch { console.warn(...) } }\<close>.
  \<open>Some\<close> is the \<open>return headers\<close> inside it, with the account as updated; \<open>None\<close> is
  control reaching the statement after the block.
\<close>

definition refresh_step :: "PipeAccount \<Rightarrow> world \<Rightarrow> (headers \<times> PipeAccount) option \<times> world" where
  "refresh_step account w =
     (case refreshToken account of
        None \<Rightarrow> (None, w)
      | Some rt \<Rightarrow>
          if rt = [] then (None, w)
          else
            (case post (PostAuthRefresh rt) w of
               (Rejected _ _, w') \<Rightarrow> (None, w')
             | (Resolved status tokens, w') \<Rightarrow>
                 if status = 200 then
                   (Some (bearer (access_token tokens),
                          account\<lparr>accessToken := access_token tokens,
                                  refreshToken := (if truthy (refresh_token tokens)
                                                   then refresh_token tokens
                                                   else refreshToken account),
                                  tokenExpiry := Some (expiry_after w' tokens)\<rparr>), w')
                 else (None, w')))"

text \<open>
  The block \<open>if (account.username && account.password) { try { ... } catch { throw ... } }\<close>.
  \<open>Some (Inr _)\<close> is the \<open>return headers\<close> inside it, \<open>Some (Inl _)\<close> the \<open>throw\<close> of the
  handler, \<open>None\<close> control reaching the statement after the block.
\<close>

definition relogin_step ::
  "PipeAccount \<Rightarrow> world \<Rightarrow> (thrown + headers \<times> PipeAccount) option \<times> world" where
  "relogin_step account w =
     (case (username account, password account) of
        (Some u, Some p) \<Rightarrow>
          if u = [] \<or> p = [] then (None, w)
          else
            (case post (PostAuthLogin u p) w of
               (Rejected _ _, w') \<Rightarrow>
                 (Some (Inl (new_PipeApiError
                    ''Authentication failed - unable to refresh or re-login'' (Some 401) None)), w')
             | (Resolved status tokens, w') \<Rightarrow>
                 if status = 200 then
                   (Some (Inr (bearer (access_token tokens),
                               account\<lparr>accessToken := access_token tokens,
                                       refreshToken := refresh_token tokens,
                                       tokenExpiry := Some (expiry_after w' tokens)\<rparr>)), w')
                 else (None, w'))
      | _ \<Rightarrow> (None, w))"

text \<open>The legacy fallback and the final \<open>throw\<close>.\<close>

definition legacy_step :: "PipeAccount \<Rightarrow> thrown + headers" where
  "legacy_step account =
     (if truthy (userAppKey account) \<and> userAppKey account \<noteq> Some ''jwt-based'' then
        Inr [(''X-User-Id'', userId account), (''X-User-App-Key'', userAppKey account)]
      else Inl (new_PipeApiError ''No valid authentication available'' (Some 401) None))"

text \<open>
  \<open>getAuthHeaders\<close> returns the headers or what it throws, the account as it has mutated
  it, and the world after its requests.
\<close>

definition getAuthHeaders :: "PipeAccount \<Rightarrow> world \<Rightarrow> (thrown + headers) \<times> PipeAccount \<times> world" where
  "getAuthHeaders account w =
     (if token_valid account w then (Inr (bearer (accessToken account)), account, w)
      else
        (case refresh_step account w of
           (Some (hs, account'), w1) \<Rightarrow> (Inr hs, account', w1)
         | (None, w1) \<Rightarrow>
             (case relogin_step account w1 of
                (Some (Inl e), w2) \<Rightarrow> (Inl e, account, w2)
              | (Some (Inr (hs, account')), w2) \<Rightarrow> (Inr hs, account', w2)
              | (None, w2) \<Rightarrow> (legacy_step account, account, w2))))"

text \<open>
  The ways the two attempts of \<open>getAuthHeaders\<close> can end without headers, read off the
  service's answers. The refresh fails: no request is made for want of a refresh token, or
  the request is rejected, or it resolves with a status other than 200. The re-login throws:
  the login request is made and rejected. The re-login is passed over: no request is made
  for want of a username or a password, or the request resolves with a status other than 200.
\<close>

definition refresh_failed :: "PipeAccount \<Rightarrow> world \<Rightarrow> bool" where
  "refresh_failed account w =
     (case refreshToken account of
        None \<Rightarrow> True
      | Some rt \<Rightarrow>
          rt = [] \<or> (case respond w (PostAuthRefresh rt) of
                       Rejected _ _ \<Rightarrow> True
                     | Resolved status _ \<Rightarrow> status \<noteq> 200))"

definition relogin_threw :: "PipeAccount \<Rightarrow> world \<Rightarrow> bool" where
  "relogin_threw account w =
     (case (username account, password account) of
        (Some u, Some p) \<Rightarrow>
          u \<noteq> [] \<and> p \<noteq> [] \<and> (case respond w (PostAuthLogin u p) of
                                 Rejected _ _ \<Rightarrow> True
                               | Resolved _ _ \<Rightarrow> False)
      | _ \<Rightarrow> False)"

definition relogin_passed_over :: "PipeAccount \<Rightarrow> world \<Rightarrow> bool" where
  "relogin_passed_over account w =
     (case (username account, password account) of
        (Some u, Some p) \<Rightarrow>
          u = [] \<or> p = [] \<or> (case respond w (PostAuthLogin u p) of
                                 Rejected _ _ \<Rightarrow> False
                               | Resolved status _ \<Rightarrow> status \<noteq> 200)
      | _ \<Rightarrow> True)"

text \<open>\<open>a || b\<close> on optional numbers.\<close>

definition or_num :: "jsnum option \<Rightarrow> jsnum option \<Rightarrow> jsnum option" where
  "or_num a b = (if truthy_num a then a else b)"

text \<open>\<open>a || 0\<close>\<close>

definition or_zero :: "jsnum option \<Rightarrow> jsnum" where
  "or_zero a = (if truthy_num a then to_number a else Finite 0)"

text \<open>
  \<open>exchangeSolForPipe\<close>: the amount is validated first, then the headers are obtained,
  then the exchange is posted; an error of the request is mapped by the handler.
\<close>

definition exchangeSolForPipe ::
  "PipeAccount \<Rightarrow> jsnum \<Rightarrow> world \<Rightarrow> (thrown + jsnum) \<times> PipeAccount \<times> world" where
  "exchangeSolForPipe account solAmount w =
     (case assertValidAmount solAmount of
        Inl e \<Rightarrow> (Inl e, account, w)
      | Inr _ \<Rightarrow>
          (case getAuthHeaders account w of
             (Inl e, account', w') \<Rightarrow> (Inl e, account', w')
           | (Inr authHeaders, account', w') \<Rightarrow>
               (case post (PostExchangeSolForTokens solAmount authHeaders) w' of
                  (Resolved _ data, w'') \<Rightarrow>
                    (Inr (or_zero (or_num (or_num (tokens_minted data) (pipe_tokens data)) (amount data))),
                     account', w'')
                | (Rejected message status, w'') \<Rightarrow>
                    (if status = Some 402 then
                       (Inl (new_PipeApiError ''Insufficient SOL balance for exchange''
                          (Some 402) (Some INSUFFICIENT_SOL)), account', w'')
                     else
                       (Inl (new_PipeApiError (''Exchange failed: '' @ message) status (Some UNKNOWN)),
                        account', w'')))))"


section \<open>Local storage (utils/storage.ts)\<close>

text \<open>\<open>FileRecord\<close>; \<open>uploadedAt\<close> is the date as milliseconds since the epoch.\<close>

record FileRecord =
  fileId :: string
  fileName :: string
  fileSize :: nat
  uploadedAt :: int
  blake3Hash :: string
  metadata :: "(string \<times> string) list option"

text \<open>
  The text held under a key of \<open>localStorage\<close>, told apart by what the code makes of it:
  the empty string; a text that \<open>JSON.parse\<close> rejects; the text \<open>null\<close>; a JSON number,
  string or boolean; an object, read as an account; an array of file records. What
  \<open>JSON.stringify\<close> writes is read back by \<open>JSON.parse\<close> as the same record.
\<close>

datatype item =
    EmptyText
  | Malformed
  | JsonNull
  | JsonPrimitive
  | AccountJson PipeAccount
  | FilesJson "FileRecord list"

text \<open>
  The storage medium: its items, and which writes it refuses (\<open>setItem\<close> throws a
  \<open>QuotaExceededError\<close> when the new value cannot be set; whether it can may depend on
  what is stored). \<open>getItem\<close> and \<open>removeItem\<close> do not throw.
\<close>

record localStorage =
  items :: "string \<Rightarrow> item option"
  write_fails :: "(string \<Rightarrow> item option) \<Rightarrow> string \<Rightarrow> item \<Rightarrow> bool"

definition getItem :: "string \<Rightarrow> localStorage \<Rightarrow> item option" where
  "getItem key st = items st key"

definition setItem :: "string \<Rightarrow> item \<Rightarrow> localStorage \<Rightarrow> (thrown + unit) \<times> localStorage" where
  "setItem key v st =
     (if write_fails st (items st) key v then (Inl (DOMException ''QuotaExceededError''), st)
      else (Inr (), st\<lparr>items := (items st)(key \<mapsto> v)\<rparr>))"

definition removeItem :: "string \<Rightarrow> localStorage \<Rightarrow> localStorage" where
  "removeItem key st = st\<lparr>items := (items st)(key := None)\<rparr>"

text \<open>\<open>JSON.stringify\<close> writes a number that is not finite as \<open>null\<close>.\<close>

definition stringify_account :: "PipeAccount \<Rightarrow> item" where
  "stringify_account account =
     AccountJson (account\<lparr>tokenExpiry :=
        (case tokenExpiry account of Some (Finite x) \<Rightarrow> Some (Finite x) | _ \<Rightarrow> None)\<rparr>)"

subsection \<open>PipeAccountStorage\<close>

text \<open>\<open>save\<close> logs the error of the write and throws it again.\<close>

definition save :: "string \<Rightarrow> PipeAccount \<Rightarrow> localStorage \<Rightarrow> (thrown + unit) \<times> localStorage" where
  "save storageKey account st =
     (case setItem storageKey (stringify_account account) st of
        (Inl e, st') \<Rightarrow> (Inl e, st')
      | (Inr u, st') \<Rightarrow> (Inr u, st'))"

text \<open>\<open>clear\<close> (of both classes) removes the item.\<close>

definition clear :: "string \<Rightarrow> localStorage \<Rightarrow> (thrown + unit) \<times> localStorage" where
  "clear storageKey st = (Inr (), removeItem storageKey st)"

text \<open>
  The \<open>try\<close> block of \<open>load\<close>. A property read on \<open>null\<close> throws; on a primitive or on
  an array the three properties are \<open>undefined\<close>.
\<close>

definition account_invalid :: "PipeAccount \<Rightarrow> bool" where
  "account_invalid account =
     (\<not> truthy (username account) \<or> \<not> truthy (password account) \<or> \<not> truthy (userId account))"

definition load_try :: "string \<Rightarrow> localStorage \<Rightarrow> (thrown + PipeAccount option) \<times> localStorage" where
  "load_try storageKey st =
     (case getItem storageKey st of
        None \<Rightarrow> (Inr None, st)
      | Some EmptyText \<Rightarrow> (Inr None, st)
      | Some Malformed \<Rightarrow> (Inl SyntaxError, st)
      | Some JsonNull \<Rightarrow> (Inl TypeError, st)
      | Some JsonPrimitive \<Rightarrow> (Inr None, snd (clear storageKey st))
      | Some (FilesJson _) \<Rightarrow> (Inr None, snd (clear storageKey st))
      | Some (AccountJson account) \<Rightarrow>
          if account_invalid account then (Inr None, snd (clear storageKey st))
          else (Inr (Some account), st))"

text \<open>\<open>load\<close>: the handler logs the error and returns \<open>null\<close>.\<close>

definition load :: "string \<Rightarrow> localStorage \<Rightarrow> (thrown + PipeAccount option) \<times> localStorage" where
  "load storageKey st =
     (case load_try storageKey st of
        (Inl _, st') \<Rightarrow> (Inr None, st')
      | (Inr r, st') \<Rightarrow> (Inr r, st'))"

definition hasAccount :: "string \<Rightarrow> localStorage \<Rightarrow> bool" where
  "hasAccount storageKey st = (getItem storageKey st \<noteq> None)"

subsection \<open>PipeFileStorage\<close>

text \<open>
  The \<open>try\<close> block of \<open>listFiles\<close>: \<open>files.map\<close> throws on anything that is not an
  array.
\<close>

definition listFiles_try :: "string \<Rightarrow> localStorage \<Rightarrow> thrown + FileRecord list" where
  "listFiles_try storageKey st =
     (case getItem storageKey st of
        None \<Rightarrow> Inr []
      | Some EmptyText \<Rightarrow> Inr []
      | Some Malformed \<Rightarrow> Inl SyntaxError
      | Some JsonNull \<Rightarrow> Inl TypeError
      | Some JsonPrimitive \<Rightarrow> Inl TypeError
      | Some (AccountJson _) \<Rightarrow> Inl TypeError
      | Some (FilesJson files) \<Rightarrow> Inr files)"

definition listFiles :: "string \<Rightarrow> localStorage \<Rightarrow> FileRecord list" where
  "listFiles storageKey st =
     (case listFiles_try storageKey st of Inl _ \<Rightarrow> [] | Inr files \<Rightarrow> files)"

text \<open>\<open>Array.prototype.findIndex\<close>: the first index whose element passes, or \<open>-1\<close>.\<close>

fun findIndex :: "('a \<Rightarrow> bool) \<Rightarrow> 'a list \<Rightarrow> int" where
  "findIndex P [] = - 1"
| "findIndex P (x # xs) =
     (if P x then 0 else (let i = findIndex P xs in if i < 0 then - 1 else i + 1))"

text \<open>
  \<open>files.splice(start)\<close> deletes from \<open>start\<close> to the end; a negative \<open>start\<close> counts
  from the end of the array.
\<close>

definition splice :: "int \<Rightarrow> 'a list \<Rightarrow> 'a list" where
  "splice start xs =
     (let len = int (length xs);
          actualStart = (if start < 0 then max (len + start) 0 else min start len)
      in take (nat actualStart) xs)"

text \<open>The array \<open>addFile\<close> writes back, from the array it has read.\<close>

definition upsert :: "int \<Rightarrow> FileRecord \<Rightarrow> FileRecord list \<Rightarrow> FileRecord list" where
  "upsert maxFiles file files =
     (let existingIndex = findIndex (\<lambda>f. fileId f = fileId file) files
      in if existingIndex \<ge> 0 then files[nat existingIndex := file]
         else (let files' = file # files
               in if int (length files') > maxFiles then splice maxFiles files' else files'))"

definition addFile_try ::
  "string \<Rightarrow> int \<Rightarrow> FileRecord \<Rightarrow> localStorage \<Rightarrow> (thrown + unit) \<times> localStorage" where
  "addFile_try storageKey maxFiles file st =
     setItem storageKey (FilesJson (upsert maxFiles file (listFiles storageKey st))) st"

text \<open>\<open>addFile\<close>: the handler logs the error and returns.\<close>

definition addFile ::
  "string \<Rightarrow> int \<Rightarrow> FileRecord \<Rightarrow> localStorage \<Rightarrow> (thrown + unit) \<times> localStorage" where
  "addFile storageKey maxFiles file st =
     (case addFile_try storageKey maxFiles file st of
        (Inl _, st') \<Rightarrow> (Inr (), st')
      | (Inr u, st') \<Rightarrow> (Inr u, st'))"

definition getFile :: "string \<Rightarrow> string \<Rightarrow> localStorage \<Rightarrow> FileRecord option" where
  "getFile storageKey fid st = find (\<lambda>f. fileId f = fid) (listFiles storageKey st)"

definition removeFile_try :: "string \<Rightarrow> string \<Rightarrow> localStorage \<Rightarrow> (thrown + unit) \<times> localStorage" where
  "removeFile_try storageKey fid st =
     setItem storageKey (FilesJson (filter (\<lambda>f. fileId f \<noteq> fid) (listFiles storageKey st))) st"

text \<open>\<open>removeFile\<close>: the handler logs the error and returns.\<close>

definition removeFile :: "string \<Rightarrow> string \<Rightarrow> localStorage \<Rightarrow> (thrown + unit) \<times> localStorage" where
  "removeFile storageKey fid st =
     (case removeFile_try storageKey fid st of
        (Inl _, st') \<Rightarrow> (Inr (), st')
      | (Inr u, st') \<Rightarrow> (Inr u, st'))"

definition count :: "string \<Rightarrow> localStorage \<Rightarrow> nat" where
  "count storageKey st = length (listFiles storageKey st)"

text \<open>A sequence of \<open>addFile\<close> calls on one store.\<close>

fun addFiles :: "string \<Rightarrow> int \<Rightarrow> FileRecord list \<Rightarrow> localStorage \<Rightarrow> localStorage" where
  "addFiles storageKey maxFiles [] st = st"
| "addFiles storageKey maxFiles (file # files) st =
     addFiles storageKey maxFiles files (snd (addFile storageKey maxFiles file st))"

section \<open>Example inputs\<close>

text \<open>Neither hash module can be loaded.\<close>

definition no_hash_modules :: hash_modules where
  "no_hash_modules =
     \<lparr>blake3 = (\<lambda>_. Inl (ModuleError ''@noble/hashes/blake3'')),
      sha256 = (\<lambda>_. Inl (ModuleError ''@noble/hashes/sha256''))\<rparr>"

text \<open>
  Two environments without blake3 whose SHA-256 stand-ins agree on the empty payload only,
  and one where blake3 loads; every digest has 32 bytes.
\<close>

definition fallback_modules :: hash_modules where
  "fallback_modules =
     \<lparr>blake3 = (\<lambda>_. Inl (ModuleError ''@noble/hashes/blake3'')),
      sha256 = (\<lambda>_. Inr (replicate 32 0))\<rparr>"

definition fallback_modules' :: hash_modules where
  "fallback_modules' =
     \<lparr>blake3 = (\<lambda>_. Inl (ModuleError ''@noble/hashes/blake3'')),
      sha256 = (\<lambda>d. Inr (if d = [] then replicate 32 0 else replicate 32 1))\<rparr>"

definition primary_modules :: hash_modules where
  "primary_modules =
     \<lparr>blake3 = (\<lambda>_. Inr (replicate 32 171)),
      sha256 = (\<lambda>_. Inr (replicate 32 0))\<rparr>"

text \<open>
  An account whose access token expired at 500 ms, and variants of it; a service that
  cannot be reached, and services that answer.
\<close>

definition alice :: PipeAccount where
  "alice =
     \<lparr>username = Some ''alice1234'', password = Some ''Passw0rd!'',
      userId = Some ''user-1'', userAppKey = Some ''app-key-1'',
      accessToken = Some ''old-token'', refreshToken = Some ''refresh-1'',
      tokenExpiry = Some (Finite 500)\<rparr>"

definition new_tokens :: response_data where
  "new_tokens =
     \<lparr>access_token = Some ''new-token'', refresh_token = None, expires_in = Some (Finite 3600),
      tokens_minted = Some (Finite 5), pipe_tokens = None, amount = None\<rparr>"

definition offline :: world where
  "offline =
     \<lparr>clock = 1000, respond = (\<lambda>_. Rejected ''Network Error'' None),
      elapsed = (\<lambda>_. 30), requests = []\<rparr>"

definition online :: world where
  "online =
     \<lparr>clock = 1000, respond = (\<lambda>_. Resolved 200 new_tokens),
      elapsed = (\<lambda>_. 30), requests = []\<rparr>"

text \<open>Three file records, the last two with the same identifier; two stores.\<close>

definition file_a :: FileRecord where
  "file_a =
     \<lparr>fileId = ''aa'', fileName = ''a.txt'', fileSize = 2, uploadedAt = 1000,
      blake3Hash = ''aa'', metadata = None\<rparr>"

definition file_b :: FileRecord where
  "file_b =
     \<lparr>fileId = ''bb'', fileName = ''b.txt'', fileSize = 3, uploadedAt = 2000,
      blake3Hash = ''bb'', metadata = None\<rparr>"

definition file_b' :: FileRecord where
  "file_b' =
     \<lparr>fileId = ''bb'', fileName = ''renamed.txt'', fileSize = 3, uploadedAt = 3000,
      blake3Hash = ''bb'', metadata = None\<rparr>"

definition empty_storage :: localStorage where
  "empty_storage = \<lparr>items = Map.empty, write_fails = (\<lambda>_ _ _. False)\<rparr>"

definition full_storage :: localStorage where
  "full_storage = \<lparr>items = Map.empty, write_fails = (\<lambda>_ _ _. True)\<rparr>"

definition manifest_ab :: localStorage where
  "manifest_ab =
     \<lparr>items = [''firestarter_file_records'' \<mapsto> FilesJson [file_a, file_b]],
      write_fails = (\<lambda>_ _ _. False)\<rparr>"

section \<open>Properties of the content identifier\<close>

lemma hex_digit_lower: "d < 16 \<Longrightarrow> is_lower_hex (hex_digit d)"
  unfolding is_lower_hex_def hex_digit_def by (rule nth_mem) simp

lemma hex_digit_0: "hex_digit 0 = CHR ''0''"
  by (simp add: hex_digit_def)

lemma byte_two_digits:
  fixes byte :: byte
  shows "padStart 2 (CHR ''0'') (toString16 (unat byte)) =
           [hex_digit (unat byte div 16), hex_digit (unat byte mod 16)]"
proof -
  have lt: "unat byte < 256"
    using unsigned_less [of byte] by simp
  show ?thesis
  proof (cases "unat byte < 16")
    case True
    then show ?thesis
      by (simp add: toString16.simps [of "unat byte"] padStart_def hex_digit_0)
  next
    case False
    from lt have "unat byte div 16 < 16" by simp
    with False show ?thesis
      by (simp add: toString16.simps [of "unat byte"] toString16.simps [of "unat byte div 16"] padStart_def)
  qed
qed

lemma length_to_hex: "length (to_hex hs) = 2 * length hs"
  by (induction hs) (simp_all add: to_hex_def byte_two_digits)

lemma to_hex_lower: "c \<in> set (to_hex hs) \<Longrightarrow> is_lower_hex c"
proof -
  assume "c \<in> set (to_hex hs)"
  then obtain b where "b \<in> set hs"
    and c: "c \<in> set (padStart 2 (CHR ''0'') (toString16 (unat b)))"
    by (auto simp: to_hex_def)
  have "unat b < 256" using unsigned_less [of b] by simp
  then have "unat b div 16 < 16" by simp
  moreover have "unat b mod 16 < 16" by simp
  ultimately show ?thesis
    using c by (auto simp: byte_two_digits hex_digit_lower)
qed

text \<open>
  Claim C8, as stated, fails where it says that hashing never raises an error: with
  neither hash module loadable, the import in the handler throws and nothing catches it.
\<close>

theorem calculateBlake3Hash_without_modules:
  "calculateBlake3Hash no_hash_modules [] = Inl (ModuleError ''@noble/hashes/sha256'')"
  by (simp add: calculateBlake3Hash_def no_hash_modules_def)

text \<open>
  Claim C8, amended. The identifier depends on the payload and on what the two hash
  functions return for it, and on nothing else: two calls on the same bytes, in
  environments where blake3 and SHA-256 behave alike on these bytes, return the same
  result. The call returns an identifier exactly when blake3 or the SHA-256 fallback
  delivers a digest; it raises only when both fail.
\<close>

theorem calculateBlake3Hash_deterministic:
  "(blake3 env d = blake3 env' d \<and> sha256 env d = sha256 env' d
      \<longrightarrow> calculateBlake3Hash env d = calculateBlake3Hash env' d)
   \<and> ((\<exists>s. calculateBlake3Hash env d = Inr s)
        = ((\<exists>h. blake3 env d = Inr h) \<or> (\<exists>h. sha256 env d = Inr h)))"
  by (auto simp: calculateBlake3Hash_def split: sum.splits)

theorem calculateBlake3Hash_deterministic_witness:
  "blake3 fallback_modules [] = blake3 fallback_modules' []
   \<and> sha256 fallback_modules [] = sha256 fallback_modules' []
   \<and> calculateBlake3Hash fallback_modules [] = calculateBlake3Hash fallback_modules' []
   \<and> sha256 fallback_modules [] = Inr (replicate 32 0)
   \<and> calculateBlake3Hash fallback_modules [] = Inr (concat (replicate 32 ''00''))"
proof -
  have agree: "blake3 fallback_modules [] = blake3 fallback_modules' []
      \<and> sha256 fallback_modules [] = sha256 fallback_modules' []"
    by (simp add: fallback_modules_def fallback_modules'_def)
  have val: "calculateBlake3Hash fallback_modules [] = Inr (concat (replicate 32 ''00''))"
    by (simp add: calculateBlake3Hash_def fallback_modules_def to_hex_def byte_two_digits hex_digit_0 
      )
  from calculateBlake3Hash_deterministic [of fallback_modules "[]" fallback_modules'] agree val
  show ?thesis by (simp add: fallback_modules_def)
qed

text \<open>
  Claim C9. When both hash functions produce 32 bytes, as blake3 with \<open>dkLen: 32\<close> and
  SHA-256 do, every identifier returned by \<open>calculateBlake3Hash\<close>, on the blake3 path
  or on the fallback path, has exactly 64 characters, each a lowercase hexadecimal digit.
\<close>

theorem calculateBlake3Hash_hex64:
  assumes "\<forall>d h. blake3 env d = Inr h \<longrightarrow> length h = 32"
    and "\<forall>d h. sha256 env d = Inr h \<longrightarrow> length h = 32"
    and "calculateBlake3Hash env d = Inr s"
  shows "length s = 64 \<and> list_all is_lower_hex s"
proof -
  from assms obtain h where h: "s = to_hex h" "length h = 32"
    by (auto simp: calculateBlake3Hash_def split: sum.splits)
  then show ?thesis
    by (auto simp: length_to_hex to_hex_lower list_all_iff)
qed

theorem calculateBlake3Hash_hex64_witness:
  "blake3 primary_modules [1, 2] = Inr (replicate 32 171)
   \<and> calculateBlake3Hash primary_modules [1, 2] = Inr (concat (replicate 32 ''ab''))
   \<and> length (concat (replicate 32 ''ab'')) = 64
   \<and> list_all is_lower_hex (concat (replicate 32 ''ab''))"
proof -
  have c1: "\<forall>d h. blake3 primary_modules d = Inr h \<longrightarrow> length h = 32"
    by (simp add: primary_modules_def)
  have c2: "\<forall>d h. sha256 primary_modules d = Inr h \<longrightarrow> length h = 32"
    by (simp add: primary_modules_def)
  have d: "hex_digit 10 = CHR ''a''" "hex_digit 11 = CHR ''b''"
    by (simp_all add: hex_digit_def)
  have val: "calculateBlake3Hash primary_modules [1, 2] = Inr (concat (replicate 32 ''ab''))"
    by (simp add: calculateBlake3Hash_def primary_modules_def to_hex_def byte_two_digits d)
  have "blake3 primary_modules [1, 2] = Inr (replicate 32 171)"
    by (simp add: primary_modules_def)
  with calculateBlake3Hash_hex64 [OF c1 c2 val] val show ?thesis by blast
qed

section \<open>Properties of the authorization headers\<close>

lemma respond_post [simp]: "respond (snd (post req w)) = respond w"
  by (simp add: post_def)

lemma fst_post [simp]: "fst (post req w) = respond w req"
  by (simp add: post_def)

lemma refresh_step_failed:
  "refresh_failed account w \<Longrightarrow> fst (refresh_step account w) = None"
  by (auto simp: refresh_failed_def refresh_step_def post_def
      split: option.splits http_outcome.splits)

lemma respond_refresh_step [simp]: "respond (snd (refresh_step account w)) = respond w"
  by (auto simp: refresh_step_def post_def split: option.splits http_outcome.splits)

lemma relogin_step_threw:
  "relogin_threw account w \<Longrightarrow>
     fst (relogin_step account w) =
       Some (Inl (PipeApiError ''Authentication failed - unable to refresh or re-login''
                    (Some 401) UNKNOWN))"
  by (auto simp: relogin_threw_def relogin_step_def post_def new_PipeApiError_def
      split: option.splits http_outcome.splits)

lemma relogin_step_passed_over:
  "relogin_passed_over account w \<Longrightarrow> fst (relogin_step account w) = None"
  by (auto simp: relogin_passed_over_def relogin_step_def post_def
      split: option.splits http_outcome.splits)

lemma relogin_respond_cong:
  "respond w' = respond w \<Longrightarrow> relogin_threw account w' = relogin_threw account w"
  "respond w' = respond w \<Longrightarrow> relogin_passed_over account w' = relogin_passed_over account w"
  by (simp_all add: relogin_threw_def relogin_passed_over_def split: option.splits)

lemma relogin_exclusive: "relogin_threw account w \<Longrightarrow> \<not> relogin_passed_over account w"
  by (auto simp: relogin_threw_def relogin_passed_over_def
      split: option.splits http_outcome.splits)

text \<open>
  Claim C1, as stated, fails. The account has a legacy key that is present and is not the
  placeholder, the refresh request is rejected and the login request is rejected: the
  handler of the re-login throws, and \<open>getAuthHeaders\<close> raises instead of returning
  the legacy headers.
\<close>

theorem getAuthHeaders_relogin_rejected:
  "refreshToken alice = Some ''refresh-1''
   \<and> respond offline (PostAuthRefresh ''refresh-1'') = Rejected ''Network Error'' None
   \<and> respond offline (PostAuthLogin ''alice1234'' ''Passw0rd!'') = Rejected ''Network Error'' None
   \<and> userAppKey alice = Some ''app-key-1''
   \<and> getAuthHeaders alice offline =
       (Inl (PipeApiError ''Authentication failed - unable to refresh or re-login''
               (Some 401) UNKNOWN),
        alice,
        offline\<lparr>clock := 1060,
          requests := [PostAuthRefresh ''refresh-1'', PostAuthLogin ''alice1234'' ''Passw0rd!'']\<rparr>)"
  by (simp add: getAuthHeaders_def token_valid_def truthy_def truthy_num_def to_number_def
      Date_now_def alice_def offline_def post_def refresh_step_def relogin_step_def
      new_PipeApiError_def)

text \<open>
  Claim C1, amended. Take an account whose cached token is not valid and whose refresh
  fails. If the login request is made and rejected, \<open>getAuthHeaders\<close> raises the
  error of the re-login handler (status 401), whatever \<open>userAppKey\<close> is. If the
  re-login is passed over (no username or password, or an answer with a status other than
  200), then with a \<open>userAppKey\<close> that is present, not empty and not \<open>jwt-based\<close> it
  returns the pair \<open>X-User-Id\<close>, \<open>X-User-App-Key\<close> and does not raise, and otherwise it
  raises "No valid authentication available" (status 401). In both cases, whether it
  raises or returns, the account is left as it was.
\<close>

theorem getAuthHeaders_legacy_fallback:
  assumes "\<not> token_valid account w" and "refresh_failed account w"
  shows "(relogin_threw account w \<longrightarrow>
            fst (getAuthHeaders account w) =
              Inl (PipeApiError ''Authentication failed - unable to refresh or re-login''
                     (Some 401) UNKNOWN)
            \<and> fst (snd (getAuthHeaders account w)) = account)
       \<and> (relogin_passed_over account w \<longrightarrow>
            fst (getAuthHeaders account w) =
              (if truthy (userAppKey account) \<and> userAppKey account \<noteq> Some ''jwt-based''
               then Inr [(''X-User-Id'', userId account), (''X-User-App-Key'', userAppKey account)]
               else Inl (PipeApiError ''No valid authentication available'' (Some 401) UNKNOWN))
            \<and> fst (snd (getAuthHeaders account w)) = account)"
proof -
  obtain w1 where r: "refresh_step account w = (None, w1)"
    using refresh_step_failed [OF assms(2)] by (cases "refresh_step account w") auto
  have w1: "respond w1 = respond w"
    using respond_refresh_step [of account w] r by simp
  have a: ?thesis if "relogin_threw account w"
  proof -
    from that have "relogin_threw account w1" "\<not> relogin_passed_over account w"
      by (simp_all add: relogin_respond_cong [OF w1] relogin_exclusive)
    with relogin_step_threw [of account w1] assms(1) r show ?thesis
      by (cases "relogin_step account w1") (auto simp: getAuthHeaders_def)
  qed
  have b: ?thesis if "relogin_passed_over account w"
  proof -
    from that have "relogin_passed_over account w1" "\<not> relogin_threw account w"
      using relogin_exclusive [of account w] by (simp_all add: relogin_respond_cong [OF w1]) blast
    with relogin_step_passed_over [of account w1] assms(1) r show ?thesis
      by (cases "relogin_step account w1")
         (auto simp: getAuthHeaders_def legacy_step_def new_PipeApiError_def)
  qed
  from a b show ?thesis by blast
qed

theorem getAuthHeaders_legacy_fallback_witness:
  "\<not> token_valid (alice\<lparr>password := None\<rparr>) offline
   \<and> refresh_failed (alice\<lparr>password := None\<rparr>) offline
   \<and> relogin_passed_over (alice\<lparr>password := None\<rparr>) offline
   \<and> fst (getAuthHeaders (alice\<lparr>password := None\<rparr>) offline) =
       Inr [(''X-User-Id'', Some ''user-1''), (''X-User-App-Key'', Some ''app-key-1'')]
   \<and> fst (snd (getAuthHeaders (alice\<lparr>password := None\<rparr>) offline))
       = alice\<lparr>password := None\<rparr>
   \<and> \<not> token_valid alice offline
   \<and> refresh_failed alice offline
   \<and> relogin_threw alice offline
   \<and> fst (getAuthHeaders alice offline) =
       Inl (PipeApiError ''Authentication failed - unable to refresh or re-login''
              (Some 401) UNKNOWN)
   \<and> fst (snd (getAuthHeaders alice offline)) = alice"
proof -
  have h1: "\<not> token_valid (alice\<lparr>password := None\<rparr>) offline" "\<not> token_valid alice offline"
    by (simp_all add: token_valid_def alice_def offline_def Date_now_def to_number_def)
  have h2: "refresh_failed (alice\<lparr>password := None\<rparr>) offline" "refresh_failed alice offline"
    by (simp_all add: refresh_failed_def alice_def offline_def)
  have h3: "relogin_passed_over (alice\<lparr>password := None\<rparr>) offline"
    by (simp add: relogin_passed_over_def alice_def)
  have h4: "relogin_threw alice offline"
    by (simp add: relogin_threw_def alice_def offline_def)
  have k: "truthy (userAppKey (alice\<lparr>password := None\<rparr>))"
    "userAppKey (alice\<lparr>password := None\<rparr>) = Some ''app-key-1''"
    "userId (alice\<lparr>password := None\<rparr>) = Some ''user-1''"
    by (simp_all add: alice_def truthy_def)
  from getAuthHeaders_legacy_fallback [OF h1(1) h2(1)] h3 k
  have r1: "fst (getAuthHeaders (alice\<lparr>password := None\<rparr>) offline) =
       Inr [(''X-User-Id'', Some ''user-1''), (''X-User-App-Key'', Some ''app-key-1'')]"
    "fst (snd (getAuthHeaders (alice\<lparr>password := None\<rparr>) offline))
       = alice\<lparr>password := None\<rparr>"
    by simp_all
  from getAuthHeaders_legacy_fallback [OF h1(2) h2(2)] h4
  have r2: "fst (getAuthHeaders alice offline) =
       Inl (PipeApiError ''Authentication failed - unable to refresh or re-login''
              (Some 401) UNKNOWN)"
    "fst (snd (getAuthHeaders alice offline)) = alice"
    by simp_all
  from h1 h2 h3 h4 r1 r2 show ?thesis by blast
qed

text \<open>
  Claim C6, as stated, fails for an access token that is present but empty: the test
  \<open>account.accessToken && ...\<close> is false for the empty string, so with an expiry still in
  the future \<open>getAuthHeaders\<close> posts a refresh and overwrites the tokens of the account.
\<close>

theorem getAuthHeaders_empty_token_refreshes:
  "accessToken (alice\<lparr>accessToken := Some [], tokenExpiry := Some (Finite 2000)\<rparr>) = Some []
   \<and> tokenExpiry (alice\<lparr>accessToken := Some [], tokenExpiry := Some (Finite 2000)\<rparr>)
       = Some (Finite 2000)
   \<and> js_lt (Date_now online) (Finite 2000)
   \<and> getAuthHeaders (alice\<lparr>accessToken := Some [], tokenExpiry := Some (Finite 2000)\<rparr>) online
       = (Inr [(''Authorization'', Some ''Bearer new-token'')],
          alice\<lparr>accessToken := Some ''new-token'', tokenExpiry := Some (Finite 3601030)\<rparr>,
          online\<lparr>clock := 1030, requests := [PostAuthRefresh ''refresh-1'']\<rparr>)"
  by (simp add: getAuthHeaders_def token_valid_def truthy_def truthy_num_def to_number_def
      Date_now_def alice_def online_def post_def bearer_def template_def refresh_step_def
      new_tokens_def expiry_after_def)

text \<open>
  Claim C6, amended. For every account whose \<open>accessToken\<close> is present and not empty and
  whose \<open>tokenExpiry\<close> is present, when the current time is strictly before
  \<open>tokenExpiry\<close>, \<open>getAuthHeaders\<close> returns the bearer header of the cached token; the
  account and the world are returned as they were, so no request is issued and no field of
  the account is written.
\<close>

theorem getAuthHeaders_valid_token:
  assumes "accessToken account = Some token" and "token \<noteq> []"
    and "tokenExpiry account = Some expiry" and "js_lt (Date_now w) expiry"
  shows "getAuthHeaders account w =
           (Inr [(''Authorization'', Some (''Bearer '' @ token))], account, w)"
proof -
  from assms(4) have "expiry \<noteq> NaN" "expiry \<noteq> Finite 0"
    by (auto simp: Date_now_def)
  with assms have "token_valid account w"
    by (simp add: token_valid_def truthy_def truthy_num_def to_number_def)
  with assms(1) show ?thesis
    by (simp add: getAuthHeaders_def bearer_def template_def)
qed

theorem getAuthHeaders_valid_token_witness:
  "js_lt (Date_now online) (Finite 2000)
   \<and> getAuthHeaders (alice\<lparr>tokenExpiry := Some (Finite 2000)\<rparr>) online =
       (Inr [(''Authorization'', Some ''Bearer old-token'')],
        alice\<lparr>tokenExpiry := Some (Finite 2000)\<rparr>, online)
   \<and> requests online = []"
proof -
  have h: "js_lt (Date_now online) (Finite 2000)"
    by (simp add: Date_now_def online_def)
  have "getAuthHeaders (alice\<lparr>tokenExpiry := Some (Finite 2000)\<rparr>) online =
       (Inr [(''Authorization'', Some (''Bearer '' @ ''old-token''))],
        alice\<lparr>tokenExpiry := Some (Finite 2000)\<rparr>, online)"
    by (rule getAuthHeaders_valid_token [where expiry = "Finite 2000"])
       (simp_all add: alice_def h)
  with h show ?thesis by (simp add: online_def)
qed

text \<open>
  Claim C10. Take an account whose cached token is not valid and whose refresh succeeds
  (the request, made with the account's refresh token, resolves with status 200), the
  response carrying no \<open>refresh_token\<close>. Then \<open>getAuthHeaders\<close> returns the bearer header
  of the new access token, \<open>accessToken\<close> is the token of the response, \<open>tokenExpiry\<close> is
  the time after the request plus \<open>expires_in * 1000\<close>, and \<open>refreshToken\<close> keeps its
  previous value.
\<close>

theorem getAuthHeaders_refresh_keeps_refreshToken:
  assumes "\<not> token_valid account w"
    and "refreshToken account = Some rt" and "rt \<noteq> []"
    and "respond w (PostAuthRefresh rt) = Resolved 200 tokens"
    and "refresh_token tokens = None"
  shows "getAuthHeaders account w =
           (Inr [(''Authorization'', Some (''Bearer '' @ template (access_token tokens)))],
            account\<lparr>accessToken := access_token tokens,
                    tokenExpiry := Some (js_add (Finite (of_nat (clock w + elapsed w (PostAuthRefresh rt))))
                                           (js_mul (to_number (expires_in tokens)) (Finite 1000)))\<rparr>,
            w\<lparr>clock := clock w + elapsed w (PostAuthRefresh rt),
              requests := requests w @ [PostAuthRefresh rt]\<rparr>)
         \<and> refreshToken (fst (snd (getAuthHeaders account w))) = Some rt"
  using assms
  by (simp add: getAuthHeaders_def refresh_step_def post_def bearer_def truthy_def
      expiry_after_def Date_now_def)

theorem getAuthHeaders_refresh_keeps_refreshToken_witness:
  "\<not> token_valid alice online
   \<and> respond online (PostAuthRefresh ''refresh-1'') = Resolved 200 new_tokens
   \<and> refresh_token new_tokens = None
   \<and> getAuthHeaders alice online =
       (Inr [(''Authorization'', Some ''Bearer new-token'')],
        alice\<lparr>accessToken := Some ''new-token'', tokenExpiry := Some (Finite 3601030)\<rparr>,
        online\<lparr>clock := 1030, requests := [PostAuthRefresh ''refresh-1'']\<rparr>)
   \<and> refreshToken (fst (snd (getAuthHeaders alice online))) = Some ''refresh-1''"
proof -
  have h1: "\<not> token_valid alice online"
    by (simp add: token_valid_def alice_def online_def Date_now_def to_number_def)
  have h2: "refreshToken alice = Some ''refresh-1''" by (simp add: alice_def)
  have h3: "respond online (PostAuthRefresh ''refresh-1'') = Resolved 200 new_tokens"
    by (simp add: online_def)
  have h4: "refresh_token new_tokens = None" by (simp add: new_tokens_def)
  have e: "template (Some ''new-token'') = ''new-token''"
    "access_token new_tokens = Some ''new-token''"
    "to_number (expires_in new_tokens) = Finite 3600"
    "clock online + elapsed online (PostAuthRefresh ''refresh-1'') = 1030"
    "requests online = []"
    by (simp_all add: new_tokens_def template_def to_number_def online_def)
  from getAuthHeaders_refresh_keeps_refreshToken [OF h1 h2 _ h3 h4]
  have "getAuthHeaders alice online =
       (Inr [(''Authorization'', Some ''Bearer new-token'')],
        alice\<lparr>accessToken := Some ''new-token'', tokenExpiry := Some (Finite 3601030)\<rparr>,
        online\<lparr>clock := 1030, requests := [PostAuthRefresh ''refresh-1'']\<rparr>)
   \<and> refreshToken (fst (snd (getAuthHeaders alice online))) = Some ''refresh-1''"
    by (simp add: e h2)
  with h1 h3 h4 show ?thesis by blast
qed

section \<open>Properties of the currency exchange\<close>

text \<open>
  Claim C7, as stated, fails for an amount that is positive but not finite:
  \<open>validateAmount\<close> tests \<open>isNaN(amount)\<close> and \<open>amount <= 0\<close> only, so \<open>Infinity\<close> passes
  and the exchange request is posted.
\<close>

theorem exchangeSolForPipe_accepts_infinity:
  "exchangeSolForPipe (alice\<lparr>tokenExpiry := Some (Finite 2000)\<rparr>) PosInfinity online
     = (Inr (Finite 5), alice\<lparr>tokenExpiry := Some (Finite 2000)\<rparr>,
        online\<lparr>clock := 1030,
          requests := [PostExchangeSolForTokens PosInfinity
                         [(''Authorization'', Some ''Bearer old-token'')]]\<rparr>)"
  by (simp add: exchangeSolForPipe_def assertValidAmount_def validateAmount_def
      getAuthHeaders_def token_valid_def truthy_def truthy_num_def to_number_def Date_now_def
      alice_def online_def post_def bearer_def template_def or_zero_def or_num_def new_tokens_def)

text \<open>
  Claim C7, amended. For every amount that is \<open>NaN\<close> or not greater than zero (zero, a
  negative number, \<open>-Infinity\<close>), \<open>exchangeSolForPipe\<close> raises a \<open>PipeValidationError\<close>
  and returns the account and the world as they were: no headers are requested and no
  request is issued.
\<close>

theorem exchangeSolForPipe_validates_first:
  assumes "solAmount = NaN \<or> js_le solAmount (Finite 0)"
  shows "exchangeSolForPipe account solAmount w =
           (Inl (PipeValidationError
                   (if solAmount = NaN then ''Amount must be a valid number''
                    else ''Amount must be greater than 0'')),
            account, w)"
  using assms
  by (auto simp: exchangeSolForPipe_def assertValidAmount_def validateAmount_def)

theorem exchangeSolForPipe_validates_first_witness:
  "js_le (Finite (- 1)) (Finite 0)
   \<and> exchangeSolForPipe alice (Finite (- 1)) online =
       (Inl (PipeValidationError ''Amount must be greater than 0''), alice, online)
   \<and> requests online = []"
proof -
  have h: "js_le (Finite (- 1)) (Finite 0)" by simp
  then have "Finite (- 1) = NaN \<or> js_le (Finite (- 1)) (Finite 0)" by simp
  from exchangeSolForPipe_validates_first [OF this, of alice online] h
  show ?thesis by (simp add: online_def)
qed

section \<open>Properties of the local stores\<close>

lemma listFiles_setItem:
  "listFiles key (snd (setItem key (FilesJson files) st)) =
     (if write_fails st (items st) key (FilesJson files) then listFiles key st else files)"
  by (simp add: setItem_def listFiles_def listFiles_try_def getItem_def)

lemma write_fails_setItem [simp]: "write_fails (snd (setItem key v st)) = write_fails st"
  by (simp add: setItem_def)

lemma addFile_eq:
  "addFile key maxFiles file st =
     (Inr (), snd (setItem key (FilesJson (upsert maxFiles file (listFiles key st))) st))"
  by (simp add: addFile_def addFile_try_def setItem_def)

lemma removeFile_eq:
  "removeFile key fid st =
     (Inr (), snd (setItem key (FilesJson (filter (\<lambda>f. fileId f \<noteq> fid) (listFiles key st))) st))"
  by (simp add: removeFile_def removeFile_try_def setItem_def)

lemma listFiles_addFile:
  "listFiles key (snd (addFile key maxFiles file st)) =
     (if write_fails st (items st) key (FilesJson (upsert maxFiles file (listFiles key st)))
      then listFiles key st else upsert maxFiles file (listFiles key st))"
  by (simp add: addFile_eq listFiles_setItem)

lemma findIndex_ge: "- 1 \<le> findIndex P xs"
  by (induction xs) (auto simp: Let_def)

lemma findIndex_neg_iff: "findIndex P xs < 0 \<longleftrightarrow> (\<forall>x \<in> set xs. \<not> P x)"
  using findIndex_ge [of P] by (induction xs) (auto simp: Let_def)

lemma findIndex_found:
  "0 \<le> findIndex P xs \<Longrightarrow>
     nat (findIndex P xs) < length xs \<and> P (xs ! nat (findIndex P xs))
     \<and> (\<forall>j < nat (findIndex P xs). \<not> P (xs ! j))"
proof (induction xs)
  case Nil
  then show ?case by simp
next
  case (Cons x xs)
  show ?case
  proof (cases "P x")
    case True
    then show ?thesis by simp
  next
    case False
    with Cons.prems have ge: "0 \<le> findIndex P xs"
      by (auto simp: Let_def split: if_splits)
    with False have eq: "findIndex P (x # xs) = findIndex P xs + 1"
      by (simp add: Let_def)
    from ge have n: "nat (findIndex P xs + 1) = Suc (nat (findIndex P xs))" by simp
    from Cons.IH [OF ge] False show ?thesis
      unfolding eq n by (auto simp: less_Suc_eq_0_disj)
  qed
qed

lemma splice_take: "0 \<le> n \<Longrightarrow> splice n xs = take (nat n) xs"
  by (auto simp: splice_def Let_def min_def)

lemma upsert_new:
  assumes "fileId file \<notin> fileId ` set files" and "0 \<le> maxFiles"
  shows "upsert maxFiles file files = take (nat maxFiles) (file # files)"
proof -
  from assms(1) have "\<forall>f \<in> set files. fileId f \<noteq> fileId file"
    by (metis imageI)
  then have "findIndex (\<lambda>f. fileId f = fileId file) files < 0"
    by (simp add: findIndex_neg_iff)
  with assms(2) show ?thesis
    by (auto simp: upsert_def Let_def splice_take)
qed

lemma upsert_existing:
  assumes "fileId file \<in> fileId ` set files"
  shows "upsert maxFiles file files =
           files[nat (findIndex (\<lambda>f. fileId f = fileId file) files) := file]"
proof -
  from assms have "\<not> findIndex (\<lambda>f. fileId f = fileId file) files < 0"
    by (auto simp: findIndex_neg_iff)
  then show ?thesis
    by (simp add: upsert_def Let_def)
qed

lemma length_upsert:
  assumes "0 \<le> maxFiles" and "int (length files) \<le> maxFiles"
  shows "int (length (upsert maxFiles file files)) \<le> maxFiles"
proof (cases "fileId file \<in> fileId ` set files")
  case True
  with assms show ?thesis by (simp add: upsert_existing)
next
  case False
  with assms show ?thesis by (simp add: upsert_new)
qed

lemma length_addFiles:
  assumes "0 \<le> maxFiles"
  shows "int (length (listFiles key st)) \<le> maxFiles \<Longrightarrow>
         int (length (listFiles key (addFiles key maxFiles files st))) \<le> maxFiles"
proof (induction files arbitrary: st)
  case Nil
  then show ?case by simp
next
  case (Cons f files)
  have "int (length (listFiles key (snd (addFile key maxFiles f st)))) \<le> maxFiles"
    using Cons.prems assms by (simp add: listFiles_addFile length_upsert)
  from Cons.IH [OF this] show ?case by simp
qed

lemma filter_update_distinct:
  "distinct (map g xs) \<Longrightarrow> i < length xs \<Longrightarrow> g (xs ! i) = g y \<Longrightarrow>
     filter (\<lambda>x. g x = g y) (xs[i := y]) = [y]"
proof (induction xs arbitrary: i)
  case Nil
  then show ?case by simp
next
  case (Cons x xs)
  show ?case
  proof (cases i)
    case 0
    with Cons.prems have "\<forall>z \<in> set xs. g z \<noteq> g y"
      by (metis distinct.simps(2) imageI list.simps(9) nth_Cons_0 set_map)
    then have "filter (\<lambda>x. g x = g y) xs = []"
      by (simp add: filter_empty_conv)
    with 0 show ?thesis by simp
  next
    case (Suc k)
    with Cons.prems have k: "k < length xs" "g (xs ! k) = g y" "distinct (map g xs)"
      by simp_all
    then have "g y \<in> g ` set xs"
      by (metis imageI nth_mem)
    with Cons.prems(1) have "g x \<noteq> g y" by auto
    with Cons.IH [OF k(3) k(1) k(2)] Suc show ?thesis by simp
  qed
qed

lemma map_update_same: "i < length xs \<Longrightarrow> g (xs ! i) = g y \<Longrightarrow> map g (xs[i := y]) = map g xs"
  by (metis list_update_id map_update nth_map)

text \<open>
  Identifiers stay pairwise different: a manifest built by \<open>addFile\<close> from an empty one
  has no identifier twice.
\<close>

lemma distinct_upsert:
  assumes "distinct (map fileId files)"
  shows "distinct (map fileId (upsert maxFiles file files))"
proof (cases "fileId file \<in> fileId ` set files")
  case True
  then have "\<not> findIndex (\<lambda>f. fileId f = fileId file) files < 0"
    by (auto simp: findIndex_neg_iff)
  then have ge: "0 \<le> findIndex (\<lambda>f. fileId f = fileId file) files" by simp
  from findIndex_found [OF ge] assms show ?thesis
    by (simp add: upsert_existing [OF True] map_update_same)
next
  case False
  then have "\<forall>f \<in> set files. fileId f \<noteq> fileId file"
    by (metis imageI)
  then have neg: "findIndex (\<lambda>f. fileId f = fileId file) files < 0"
    by (simp add: findIndex_neg_iff)
  from False assms have d: "distinct (map fileId (file # files))" by simp
  then have "distinct (map fileId (take n (file # files)))" for n
    by (metis distinct_take take_map)
  with neg d show ?thesis
    by (simp add: upsert_def Let_def splice_def del: take_Suc_Cons distinct.simps list.map)
qed

lemma distinct_addFiles:
  "distinct (map fileId (listFiles key st)) \<Longrightarrow>
   distinct (map fileId (listFiles key (addFiles key maxFiles files st)))"
proof (induction files arbitrary: st)
  case Nil
  then show ?case by simp
next
  case (Cons f files)
  have "distinct (map fileId (listFiles key (snd (addFile key maxFiles f st))))"
    using Cons.prems by (simp add: listFiles_addFile distinct_upsert)
  from Cons.IH [OF this] show ?case by simp
qed

text \<open>
  Claim C2, as stated, fails. The manifest holds \<open>file_a\<close> then \<open>file_b\<close>; adding a
  record with the identifier of \<open>file_b\<close> replaces that entry where it stands, and the
  head of the list is still \<open>file_a\<close>.
\<close>

theorem existing_entry_not_moved_to_head:
  "listFiles ''firestarter_file_records'' manifest_ab = [file_a, file_b]
   \<and> fileId file_b' = fileId file_b
   \<and> listFiles ''firestarter_file_records''
        (snd (addFile ''firestarter_file_records'' 1000 file_b' manifest_ab)) = [file_a, file_b']
   \<and> hd (listFiles ''firestarter_file_records''
        (snd (addFile ''firestarter_file_records'' 1000 file_b' manifest_ab))) \<noteq> file_b'"
  by (simp add: listFiles_addFile upsert_def)
     (simp add: listFiles_def listFiles_try_def getItem_def manifest_ab_def
        file_a_def file_b_def file_b'_def)

text \<open>
  Claim C2, amended. For every manifest whose identifiers are pairwise different and
  every file record whose identifier occurs in it, \<open>addFile\<close>, when the write succeeds,
  leaves exactly one entry with that identifier, the record supplied; the entry keeps the
  position of the one it replaces (it is not moved to the head), and the identifiers of the
  list, in order, are unchanged.
\<close>

theorem addFile_existing:
  assumes "fileId file \<in> fileId ` set (listFiles key st)"
    and "distinct (map fileId (listFiles key st))"
    and "\<not> write_fails st (items st) key (FilesJson (upsert maxFiles file (listFiles key st)))"
  shows "filter (\<lambda>f. fileId f = fileId file) (listFiles key (snd (addFile key maxFiles file st)))
           = [file]
       \<and> map fileId (listFiles key (snd (addFile key maxFiles file st)))
           = map fileId (listFiles key st)
       \<and> listFiles key (snd (addFile key maxFiles file st))
           = (listFiles key st)[nat (findIndex (\<lambda>f. fileId f = fileId file) (listFiles key st)) := file]"
proof -
  let ?fs = "listFiles key st"
  let ?i = "nat (findIndex (\<lambda>f. fileId f = fileId file) ?fs)"
  from assms(1) have "\<not> findIndex (\<lambda>f. fileId f = fileId file) ?fs < 0"
    by (auto simp: findIndex_neg_iff)
  then have "0 \<le> findIndex (\<lambda>f. fileId f = fileId file) ?fs" by simp
  from findIndex_found [OF this]
  have i: "?i < length ?fs" "fileId (?fs ! ?i) = fileId file" by simp_all
  have after: "listFiles key (snd (addFile key maxFiles file st)) = ?fs[?i := file]"
    using assms(1,3) by (simp add: listFiles_addFile upsert_existing)
  show ?thesis
    unfolding after
    using filter_update_distinct [OF assms(2) i] map_update_same [OF i] by simp
qed

theorem addFile_existing_witness:
  "fileId file_b' \<in> fileId ` set (listFiles ''firestarter_file_records'' manifest_ab)
   \<and> distinct (map fileId (listFiles ''firestarter_file_records'' manifest_ab))
   \<and> filter (\<lambda>f. fileId f = fileId file_b')
        (listFiles ''firestarter_file_records''
          (snd (addFile ''firestarter_file_records'' 1000 file_b' manifest_ab))) = [file_b']
   \<and> map fileId (listFiles ''firestarter_file_records''
          (snd (addFile ''firestarter_file_records'' 1000 file_b' manifest_ab))) = [''aa'', ''bb'']"
proof -
  let ?k = "''firestarter_file_records''"
  have l: "listFiles ?k manifest_ab = [file_a, file_b]"
    by (simp add: listFiles_def listFiles_try_def getItem_def manifest_ab_def)
  have h1: "fileId file_b' \<in> fileId ` set (listFiles ?k manifest_ab)"
    by (simp add: l file_a_def file_b_def file_b'_def)
  have h2: "distinct (map fileId (listFiles ?k manifest_ab))"
    by (simp add: l file_a_def file_b_def)
  have h3: "\<not> write_fails manifest_ab (items manifest_ab) ?k
      (FilesJson (upsert 1000 file_b' (listFiles ?k manifest_ab)))"
    by (simp add: manifest_ab_def)
  have m: "map fileId (listFiles ?k manifest_ab) = [''aa'', ''bb'']"
    by (simp add: l file_a_def file_b_def)
  note r = addFile_existing [OF h1 h2 h3]
  from r have r1: "filter (\<lambda>f. fileId f = fileId file_b')
        (listFiles ?k (snd (addFile ?k 1000 file_b' manifest_ab))) = [file_b']"
    by (rule conjunct1)
  from r have "map fileId (listFiles ?k (snd (addFile ?k 1000 file_b' manifest_ab)))
      = map fileId (listFiles ?k manifest_ab)"
    by blast
  with m have r2: "map fileId (listFiles ?k (snd (addFile ?k 1000 file_b' manifest_ab)))
      = [''aa'', ''bb'']"
    by simp
  from h1 h2 r1 r2 show ?thesis by blast
qed

text \<open>
  Claim C3, as stated, fails. On a medium that refuses every write, \<open>addFile\<close> and
  \<open>removeFile\<close> return normally, and \<open>save\<close> throws the exception of the medium, not a
  \<open>PipeStorageError\<close>.
\<close>

theorem write_failure_not_surfaced:
  "addFile ''firestarter_file_records'' 1000 file_a full_storage = (Inr (), full_storage)
   \<and> removeFile ''firestarter_file_records'' ''aa'' full_storage = (Inr (), full_storage)
   \<and> save ''firestarter_pipe_account'' alice full_storage
       = (Inl (DOMException ''QuotaExceededError''), full_storage)"
  by (simp add: addFile_eq removeFile_eq save_def setItem_def full_storage_def)

text \<open>
  Claim C3, amended. When the write fails, \<open>save\<close> throws the exception of the medium
  itself to the caller and stores nothing; \<open>addFile\<close> and \<open>removeFile\<close> catch the
  failure and return normally, the stored list being what it was.
\<close>

theorem write_failure_handling:
  "(write_fails st (items st) key (stringify_account account)
      \<longrightarrow> save key account st = (Inl (DOMException ''QuotaExceededError''), st))
   \<and> (write_fails st (items st) key (FilesJson (upsert maxFiles file (listFiles key st)))
      \<longrightarrow> addFile key maxFiles file st = (Inr (), st))
   \<and> (write_fails st (items st) key
          (FilesJson (filter (\<lambda>f. fileId f \<noteq> fid) (listFiles key st)))
      \<longrightarrow> removeFile key fid st = (Inr (), st))"
  by (simp add: addFile_eq removeFile_eq save_def setItem_def)

theorem write_failure_handling_witness:
  "write_fails full_storage (items full_storage) ''firestarter_pipe_account''
     (stringify_account alice)
   \<and> save ''firestarter_pipe_account'' alice full_storage
       = (Inl (DOMException ''QuotaExceededError''), full_storage)
   \<and> addFile ''firestarter_file_records'' 1000 file_a full_storage = (Inr (), full_storage)
   \<and> removeFile ''firestarter_file_records'' ''aa'' full_storage = (Inr (), full_storage)"
proof -
  have w: "write_fails full_storage (items full_storage) k v" for k v
    by (simp add: full_storage_def)
  from write_failure_handling
    [of full_storage "''firestarter_pipe_account''" alice 1000 file_a "''aa''"]
    write_failure_handling
    [of full_storage "''firestarter_file_records''" alice 1000 file_a "''aa''"] w
  show ?thesis by blast
qed

text \<open>
  Claim C4, as stated, fails for \<open>userAppKey\<close>: a stored record that lacks it, with the
  other three credentials present, is returned by \<open>load\<close> and the slot is kept.
\<close>

theorem load_keeps_account_without_userAppKey:
  "userAppKey (alice\<lparr>userAppKey := None\<rparr>) = None
   \<and> load ''firestarter_pipe_account''
        (empty_storage\<lparr>items := [''firestarter_pipe_account'' \<mapsto>
                                    AccountJson (alice\<lparr>userAppKey := None\<rparr>)]\<rparr>)
       = (Inr (Some (alice\<lparr>userAppKey := None\<rparr>)),
          empty_storage\<lparr>items := [''firestarter_pipe_account'' \<mapsto>
                                    AccountJson (alice\<lparr>userAppKey := None\<rparr>)]\<rparr>)"
  by (simp add: load_def load_try_def getItem_def account_invalid_def truthy_def alice_def)

text \<open>
  Claim C4, amended. For every stored credential record in which \<open>username\<close>,
  \<open>password\<close> or \<open>userId\<close> is missing or empty, \<open>load\<close> returns absent and the slot
  is empty afterwards; a record in which the three are present and not empty is returned
  as it is stored, whatever its \<open>userAppKey\<close>, and the store is unchanged; and \<open>load\<close>
  raises in no state of the store.
\<close>

theorem load_validates:
  "(getItem key st = Some (AccountJson account)
      \<and> (\<not> truthy (username account) \<or> \<not> truthy (password account)
           \<or> \<not> truthy (userId account))
      \<longrightarrow> fst (load key st) = Inr None \<and> getItem key (snd (load key st)) = None)
   \<and> (getItem key st = Some (AccountJson account)
      \<and> truthy (username account) \<and> truthy (password account) \<and> truthy (userId account)
      \<longrightarrow> load key st = (Inr (Some account), st))
   \<and> (\<exists>r. fst (load key st) = Inr r)"
  by (auto simp: load_def load_try_def getItem_def account_invalid_def clear_def removeItem_def
      split: option.splits item.splits)

theorem load_validates_witness:
  "getItem ''firestarter_pipe_account''
     (empty_storage\<lparr>items := [''firestarter_pipe_account'' \<mapsto>
                                 AccountJson (alice\<lparr>userId := Some []\<rparr>)]\<rparr>)
     = Some (AccountJson (alice\<lparr>userId := Some []\<rparr>))
   \<and> \<not> truthy (userId (alice\<lparr>userId := Some []\<rparr>))
   \<and> fst (load ''firestarter_pipe_account''
        (empty_storage\<lparr>items := [''firestarter_pipe_account'' \<mapsto>
                                    AccountJson (alice\<lparr>userId := Some []\<rparr>)]\<rparr>)) = Inr None
   \<and> getItem ''firestarter_pipe_account''
        (snd (load ''firestarter_pipe_account''
           (empty_storage\<lparr>items := [''firestarter_pipe_account'' \<mapsto>
                                    AccountJson (alice\<lparr>userId := Some []\<rparr>)]\<rparr>))) = None"
proof -
  let ?st = "empty_storage\<lparr>items := [''firestarter_pipe_account'' \<mapsto>
                                 AccountJson (alice\<lparr>userId := Some []\<rparr>)]\<rparr>"
  have h1: "getItem ''firestarter_pipe_account'' ?st = Some (AccountJson (alice\<lparr>userId := Some []\<rparr>))"
    by (simp add: getItem_def)
  have h2: "\<not> truthy (userId (alice\<lparr>userId := Some []\<rparr>))"
    by (simp add: truthy_def)
  from load_validates [of "''firestarter_pipe_account''" ?st "alice\<lparr>userId := Some []\<rparr>"] h1 h2
  show ?thesis by blast
qed

text \<open>
  Claim C5. Start from an empty manifest, with a capacity \<open>maxFiles\<close> that is not
  negative, and run any sequence of \<open>addFile\<close> calls: the length of the manifest does
  not exceed \<open>maxFiles\<close>. In the state reached, adding a record with a new identifier
  (the write succeeding) puts it at the head and keeps the first \<open>maxFiles\<close> entries of
  the extended list: what is evicted is the tail of the list, its oldest entries.
\<close>

theorem addFile_capacity:
  assumes "0 \<le> maxFiles" and "listFiles key st = []"
    and "s = addFiles key maxFiles files st"
  shows "int (length (listFiles key s)) \<le> maxFiles
       \<and> (fileId file \<notin> fileId ` set (listFiles key s)
          \<and> \<not> write_fails s (items s) key
                (FilesJson (take (nat maxFiles) (file # listFiles key s)))
          \<longrightarrow> listFiles key (snd (addFile key maxFiles file s))
                = take (nat maxFiles) (file # listFiles key s)
            \<and> file # listFiles key s
                = listFiles key (snd (addFile key maxFiles file s))
                  @ drop (nat maxFiles) (file # listFiles key s))"
proof -
  have "int (length (listFiles key st)) \<le> maxFiles"
    using assms(1,2) by simp
  then have len: "int (length (listFiles key s)) \<le> maxFiles"
    unfolding assms(3) by (rule length_addFiles [OF assms(1)])
  have "listFiles key (snd (addFile key maxFiles file s))
          = take (nat maxFiles) (file # listFiles key s)"
    if "fileId file \<notin> fileId ` set (listFiles key s)"
      and "\<not> write_fails s (items s) key
                (FilesJson (take (nat maxFiles) (file # listFiles key s)))"
    using that assms(1) by (simp add: listFiles_addFile upsert_new)
  with len show ?thesis by simp
qed

theorem addFile_capacity_witness:
  "listFiles ''firestarter_file_records'' empty_storage = []
   \<and> listFiles ''firestarter_file_records''
        (addFiles ''firestarter_file_records'' 1 [file_a] empty_storage) = [file_a]
   \<and> int (length (listFiles ''firestarter_file_records''
        (addFiles ''firestarter_file_records'' 1 [file_a] empty_storage))) \<le> 1
   \<and> listFiles ''firestarter_file_records''
        (snd (addFile ''firestarter_file_records'' 1 file_b
               (addFiles ''firestarter_file_records'' 1 [file_a] empty_storage))) = [file_b]
   \<and> drop 1 [file_b, file_a] = [file_a]"
proof -
  let ?k = "''firestarter_file_records''"
  let ?s = "addFiles ?k 1 [file_a] empty_storage"
  have h2: "listFiles ?k empty_storage = []"
    by (simp add: listFiles_def listFiles_try_def getItem_def empty_storage_def)
  have wf0: "\<not> write_fails empty_storage (items empty_storage) ?k v" for v
    by (simp add: empty_storage_def)
  have up: "upsert 1 file_a [] = [file_a]"
    by (simp add: upsert_def)
  have s: "listFiles ?k ?s = [file_a]"
    by (simp add: listFiles_addFile h2 up wf0)
  have wf: "write_fails ?s = (\<lambda>_ _ _. False)"
    by (simp add: addFile_eq empty_storage_def)
  have new0: "fileId file_b \<notin> fileId ` set [file_a]"
    by (simp add: file_a_def file_b_def)
  have new: "fileId file_b \<notin> fileId ` set (listFiles ?k ?s)"
    unfolding s by (rule new0)
  have nw: "\<not> write_fails ?s (items ?s) ?k v" for v
    unfolding wf by simp
  have z: "(0::int) \<le> 1" by simp
  from addFile_capacity [of 1 ?k empty_storage ?s "[file_a]" file_b, OF z h2 refl] new
    nw [of "FilesJson (take (nat 1) (file_b # listFiles ?k ?s))"]
  have c: "int (length (listFiles ?k ?s)) \<le> 1"
    "listFiles ?k (snd (addFile ?k 1 file_b ?s)) = take (nat 1) (file_b # listFiles ?k ?s)"
    by blast+
  have c2: "listFiles ?k (snd (addFile ?k 1 file_b ?s)) = [file_b]"
    unfolding c(2) s by simp
  have d: "drop 1 [file_b, file_a] = [file_a]" by simp
  from h2 s c(1) c2 d show ?thesis by blast
qed

end
